theory Spec2Isabelle
  imports Complex_Main "HOL-Library.Sublist"
begin

section \<open>Data model of \<^verbatim>\<open>Webscrapebot.py\<close>\<close>

text \<open>
  Conventions of the embedding.
  \<^item> Python \<^verbatim>\<open>int\<close> is \<^typ>\<open>int\<close>; Python \<^verbatim>\<open>float\<close> is idealised as \<^typ>\<open>real\<close>:
    a decimal literal has its exact value and sums, products and quotients are exact, where a
    double would round. Where the source can produce an infinity or a NaN this is said at
    the place.
  \<^item> Python \<^verbatim>\<open>str\<close> is \<^typ>\<open>string\<close>; a character is read as the code point
    U+0000 .. U+00FF with its number.
  \<^item> A raised exception is a value of type \<open>exn\<close>; a function that can raise returns a sum
    with the exception on the left.
  \<^item> What the environment decides (the clock, the browser, the fetched page) is an explicit
    argument.
\<close>

datatype exn =
  ZeroDivisionError
  | ValueError
  | OverflowError
  | TimeoutException
  | WebDriverException
  | OtherException

text \<open>The fields of \<^verbatim>\<open>ScraperConfig\<close> that the modelled functions read.\<close>

record ScraperConfig =
  default_taxes :: real
  max_retries :: int
  requests_per_hour :: int

text \<open>The fields of \<^verbatim>\<open>BrowserManager\<close> that \<^verbatim>\<open>rate_limit\<close> reads and writes.\<close>

record BrowserManager =
  request_count :: int
  last_request_time :: real

text \<open>\<^verbatim>\<open>BrowserManager.__init__\<close>: the counter starts at 0, the time stamp at the clock reading.\<close>

definition new_BrowserManager :: "real \<Rightarrow> BrowserManager" where
  "new_BrowserManager now = \<lparr>request_count = 0, last_request_time = now\<rparr>"

section \<open>The rate limiter\<close>

text \<open>
  \<^verbatim>\<open>BrowserManager.rate_limit\<close>. The argument \<open>current_time\<close> is the value of
  \<^verbatim>\<open>time.time()\<close>. The result is the object after the call, with either the exception that
  escaped or the number of seconds slept. The counter is incremented before anything can
  raise, so the object after a raise carries the incremented counter.
  \<^verbatim>\<open>x / 0\<close> raises \<^verbatim>\<open>ZeroDivisionError\<close> and \<^verbatim>\<open>time.sleep\<close> of a negative number raises
  \<^verbatim>\<open>ValueError\<close>.
\<close>

definition rate_limit :: "ScraperConfig \<Rightarrow> real \<Rightarrow> BrowserManager \<Rightarrow> (exn + real) \<times> BrowserManager" where
  "rate_limit config current_time self =
    (let self1 = self\<lparr>request_count := request_count self + 1\<rparr> in
     if request_count self1 > requests_per_hour config then
       (let elapsed = current_time - last_request_time self1 in
        if elapsed < 3600 then
          (let divisor = requests_per_hour config - request_count self1 + 1 in
           if divisor = 0 then (Inl ZeroDivisionError, self1)
           else
             (let sleep_time = (3600 - elapsed) / of_int divisor in
              if sleep_time < 0 then (Inl ValueError, self1)
              else (Inr sleep_time, self1\<lparr>request_count := 1, last_request_time := current_time\<rparr>)))
        else (Inr 0, self1\<lparr>request_count := 1, last_request_time := current_time\<rparr>))
     else (Inr 0, self1\<lparr>last_request_time := current_time\<rparr>))"

section \<open>Text helpers\<close>

text \<open>
  The characters \<^verbatim>\<open>str.isspace\<close>, \<^verbatim>\<open>str.strip\<close> and the regular expression class
  \<^verbatim>\<open>\s\<close> take for white space, among U+0000 .. U+00FF: 9 to 13, 28 to 32, 133 and 160.
\<close>

definition py_isspace :: "char \<Rightarrow> bool" where
  "py_isspace c =
    (let n = (of_char c :: int) in (9 \<le> n \<and> n \<le> 13) \<or> (28 \<le> n \<and> n \<le> 32) \<or> n = 133 \<or> n = 160)"

text \<open>The class \<^verbatim>\<open>\d\<close>: among U+0000 .. U+00FF the decimal digits are the ASCII ones.\<close>

definition is_digit :: "char \<Rightarrow> bool" where
  "is_digit c = (c \<in> set ''0123456789'')"

definition digit_val :: "char \<Rightarrow> int" where
  "digit_val c = of_char c - 48"

text \<open>The value of a string of decimal digits, most significant first.\<close>

definition digits_val :: "string \<Rightarrow> int" where
  "digits_val ds = foldl (\<lambda>a c. 10 * a + digit_val c) 0 ds"

text \<open>\<^verbatim>\<open>str.strip()\<close> with no argument.\<close>

definition py_strip :: "string \<Rightarrow> string" where
  "py_strip s = rev (dropWhile py_isspace (rev (dropWhile py_isspace s)))"

text \<open>
  \<^verbatim>\<open>str.lower()\<close>: among U+0000 .. U+00FF the upper-case letters are A to Z and
  U+00C0 .. U+00DE without the multiplication sign U+00D7; each is 32 below its lower-case
  letter.
\<close>

definition py_lower_char :: "char \<Rightarrow> char" where
  "py_lower_char c =
    (let n = (of_char c :: int) in
     if (65 \<le> n \<and> n \<le> 90) \<or> (192 \<le> n \<and> n \<le> 222 \<and> n \<noteq> 215) then char_of (n + 32) else c)"

definition py_lower :: "string \<Rightarrow> string" where
  "py_lower s = map py_lower_char s"

text \<open>\<^verbatim>\<open>s.replace(c, "")\<close> for a one-character \<open>c\<close>.\<close>

definition remove_char :: "char \<Rightarrow> string \<Rightarrow> string" where
  "remove_char c s = filter (\<lambda>x. x \<noteq> c) s"

text \<open>\<^verbatim>\<open>sub in s\<close> for strings: \<open>sub\<close> occurs in \<open>s\<close> as a contiguous block.\<close>

fun py_contains :: "string \<Rightarrow> string \<Rightarrow> bool" where
  "py_contains sub [] = (sub = [])"
| "py_contains sub (c # s) = (prefix sub (c # s) \<or> py_contains sub s)"

text \<open>\<^verbatim>\<open>str(n)\<close> for an integer \<open>n \<ge> 0\<close>: its decimal digits.\<close>

fun str_nat :: "nat \<Rightarrow> string" where
  "str_nat n = (if n < 10 then [char_of (48 + n)] else str_nat (n div 10) @ [char_of (48 + n mod 10)])"

declare str_nat.simps [simp del]

definition py_str :: "int \<Rightarrow> string" where
  "py_str i = (if i < 0 then CHR ''-'' # str_nat (nat (- i)) else str_nat (nat i))"

section \<open>\<^verbatim>\<open>float(s)\<close> on a string\<close>

text \<open>
  The result of \<^verbatim>\<open>float(s)\<close>: a finite number (idealised as a real, so a literal too large
  for a double is its exact value here and an infinity in the interpreter), an infinity or
  a NaN.
\<close>

datatype pyfloat = Finite real | Infinite bool | NaN

text \<open>
  The white space \<^verbatim>\<open>float\<close> strips from both ends: the six ASCII ones, and U+0085 and
  U+00A0, which the interpreter first rewrites to a blank.
\<close>

definition float_space :: "char \<Rightarrow> bool" where
  "float_space c =
    (let n = (of_char c :: int) in (9 \<le> n \<and> n \<le> 13) \<or> n = 32 \<or> n = 133 \<or> n = 160)"

definition float_strip :: "string \<Rightarrow> string" where
  "float_strip s = rev (dropWhile float_space (rev (dropWhile float_space s)))"

text \<open>
  Underscores: each must stand after a digit and before a digit. \<open>prev\<close> is the character
  before, \<open>None\<close> at the start.
\<close>

fun underscores_ok :: "char option \<Rightarrow> string \<Rightarrow> bool" where
  "underscores_ok prev [] = (prev \<noteq> Some CHR ''_'')"
| "underscores_ok prev (c # s) =
    (if c = CHR ''_'' then
       (case prev of None \<Rightarrow> False | Some p \<Rightarrow> is_digit p \<and> underscores_ok (Some c) s)
     else (prev = Some CHR ''_'' \<longrightarrow> is_digit c) \<and> underscores_ok (Some c) s)"

text \<open>An optional sign: whether it is a minus, and the rest.\<close>

fun take_sign :: "string \<Rightarrow> bool \<times> string" where
  "take_sign [] = (False, [])"
| "take_sign (c # s) =
    (if c = CHR ''-'' then (True, s) else if c = CHR ''+'' then (False, s) else (False, c # s))"

text \<open>
  The unsigned decimal literal: digits with an optional point, at least one digit, and an
  optional exponent \<^verbatim>\<open>e\<close> or \<^verbatim>\<open>E\<close> with an optional sign and at least one digit. The whole
  string must be the literal; \<open>None\<close> otherwise.
\<close>

definition parse_decimal :: "string \<Rightarrow> real option" where
  "parse_decimal s =
    (let ip = takeWhile is_digit s;
         r1 = dropWhile is_digit s;
         has_point = (r1 \<noteq> [] \<and> hd r1 = CHR ''.'');
         fp = (if has_point then takeWhile is_digit (tl r1) else []);
         r2 = (if has_point then dropWhile is_digit (tl r1) else r1)
     in if ip = [] \<and> fp = [] then None
        else
          (let mant = of_int (digits_val (ip @ fp)) / 10 ^ length fp in
           case r2 of
             [] \<Rightarrow> Some mant
           | c # r3 \<Rightarrow>
               if c = CHR ''e'' \<or> c = CHR ''E'' then
                 (let (neg, r4) = take_sign r3 in
                  if r4 = [] \<or> \<not> list_all is_digit r4 then None
                  else if neg then Some (mant / 10 ^ nat (digits_val r4))
                  else Some (mant * 10 ^ nat (digits_val r4)))
               else None))"

text \<open>\<^verbatim>\<open>inf\<close>, \<^verbatim>\<open>infinity\<close> and \<^verbatim>\<open>nan\<close> in any case, after an optional sign.\<close>

definition parse_inf_or_nan :: "string \<Rightarrow> pyfloat option" where
  "parse_inf_or_nan s =
    (let (neg, r) = take_sign s; w = py_lower r in
     if w = ''inf'' \<or> w = ''infinity'' then Some (Infinite neg)
     else if w = ''nan'' then Some NaN
     else None)"

text \<open>\<^verbatim>\<open>float(s)\<close>; \<open>None\<close> is \<^verbatim>\<open>ValueError\<close>.\<close>

definition py_float :: "string \<Rightarrow> pyfloat option" where
  "py_float s =
    (let t = float_strip s in
     if t = [] \<or> \<not> underscores_ok None t then None
     else
       (let u = remove_char CHR ''_'' t; (neg, r) = take_sign u in
        case parse_decimal r of
          Some x \<Rightarrow> Some (Finite (if neg then - x else x))
        | None \<Rightarrow> parse_inf_or_nan u))"

text \<open>\<^verbatim>\<open>int(x)\<close> of a float: towards zero; an infinity and a NaN raise.\<close>

definition py_trunc :: "real \<Rightarrow> int" where
  "py_trunc x = (if x < 0 then \<lceil>x\<rceil> else \<lfloor>x\<rfloor>)"

definition int_of_pyfloat :: "pyfloat \<Rightarrow> exn + int" where
  "int_of_pyfloat f =
    (case f of Finite x \<Rightarrow> Inr (py_trunc x) | Infinite _ \<Rightarrow> Inl OverflowError | NaN \<Rightarrow> Inl ValueError)"

text \<open>\<^verbatim>\<open>x * 1000\<close> on a float.\<close>

definition pyfloat_times :: "pyfloat \<Rightarrow> real \<Rightarrow> pyfloat" where
  "pyfloat_times f k = (case f of Finite x \<Rightarrow> Finite (x * k) | Infinite b \<Rightarrow> Infinite b | NaN \<Rightarrow> NaN)"

section \<open>Parsing money and points\<close>

text \<open>
  The pattern of \<^verbatim>\<open>parse_money\<close>, \<^verbatim>\<open>\$?\s*([\d,]+(?:\.\d{1,2})?)\<close>, tried at the start
  of \<open>s\<close>; the result is group 1. Every item is greedy: an optional dollar sign, white
  space, one or more characters that are a digit or a comma, then optionally a point with
  two digits or, failing that, one. Taking less of an earlier item never lets a later one
  match (a dollar sign and white space are neither digit nor comma, and all that follows the
  digits and commas is optional), so the greedy choice is the only one to try.
\<close>

definition digit_or_comma :: "char \<Rightarrow> bool" where
  "digit_or_comma c = (is_digit c \<or> c = CHR '','')"

fun money_fraction :: "string \<Rightarrow> string" where
  "money_fraction (p # d1 # d2 # s) =
    (if p = CHR ''.'' \<and> is_digit d1 then (if is_digit d2 then [p, d1, d2] else [p, d1]) else [])"
| "money_fraction [p, d1] = (if p = CHR ''.'' \<and> is_digit d1 then [p, d1] else [])"
| "money_fraction s = []"

definition money_match_at :: "string \<Rightarrow> string option" where
  "money_match_at s =
    (let s1 = (if s \<noteq> [] \<and> hd s = CHR ''$'' then tl s else s);
         s2 = dropWhile py_isspace s1;
         g = takeWhile digit_or_comma s2
     in if g = [] then None else Some (g @ money_fraction (dropWhile digit_or_comma s2)))"

text \<open>\<^verbatim>\<open>re.search\<close>: the first start position, from the left, where the pattern matches.\<close>

fun money_search :: "string \<Rightarrow> string option" where
  "money_search [] = money_match_at []"
| "money_search (c # s) =
    (case money_match_at (c # s) of Some g \<Rightarrow> Some g | None \<Rightarrow> money_search s)"

text \<open>
  \<^verbatim>\<open>parse_money\<close>. \<open>None\<close> is Python's \<^verbatim>\<open>None\<close>. Group 1 holds digits, commas and at most
  one point, so \<^verbatim>\<open>float\<close> of it without the commas is finite when it does not raise
  (lemma \<open>money_float_finite\<close>): the cases of an infinity and a NaN are there for the
  types only.
\<close>

definition parse_money :: "string option \<Rightarrow> exn + real" where
  "parse_money text =
    (case text of
       None \<Rightarrow> Inr 0
     | Some t \<Rightarrow>
         if t = [] then Inr 0
         else
           (case money_search t of
              None \<Rightarrow> Inr 0
            | Some g \<Rightarrow>
                (case py_float (remove_char CHR '','' g) of
                   None \<Rightarrow> Inl ValueError
                 | Some (Finite x) \<Rightarrow> Inr x
                 | Some (Infinite b) \<Rightarrow> Inl OverflowError
                 | Some NaN \<Rightarrow> Inl ValueError)))"

text \<open>
  The pattern of \<^verbatim>\<open>parse_points\<close>, \<^verbatim>\<open>(\d{1,3}(?:,\d{3})*)\<close>, tried at the start of \<open>s\<close>:
  one to three digits, as many as there are up to three, then as many groups of a comma and
  three digits as follow. All after the first digit is optional, so the greedy choice
  matches whenever any does.
\<close>

fun comma_groups :: "string \<Rightarrow> string" where
  "comma_groups (c # d1 # d2 # d3 # s) =
    (if c = CHR '','' \<and> is_digit d1 \<and> is_digit d2 \<and> is_digit d3
     then c # d1 # d2 # d3 # comma_groups s else [])"
| "comma_groups s = []"

definition points_match_at :: "string \<Rightarrow> string option" where
  "points_match_at s =
    (let d = takeWhile is_digit (take 3 s)
     in if d = [] then None else Some (d @ comma_groups (drop (length d) s)))"

fun points_search :: "string \<Rightarrow> string option" where
  "points_search [] = points_match_at []"
| "points_search (c # s) =
    (case points_match_at (c # s) of Some g \<Rightarrow> Some g | None \<Rightarrow> points_search s)"

text \<open>
  \<^verbatim>\<open>parse_points\<close>. In the branch without a \<^verbatim>\<open>k\<close>, \<^verbatim>\<open>int\<close> is applied to a non-empty
  string of digits, whose value it returns (the interpreter's limit on the length of such a
  string is not modelled).
\<close>

definition parse_points :: "string option \<Rightarrow> exn + int" where
  "parse_points text =
    (case text of
       None \<Rightarrow> Inr 0
     | Some t0 \<Rightarrow>
         if t0 = [] then Inr 0
         else
           (let t = py_lower (py_strip t0) in
            if CHR ''k'' \<in> set t then
              (case py_float (remove_char CHR '','' (remove_char CHR ''k'' t)) of
                 None \<Rightarrow> Inl ValueError
               | Some f \<Rightarrow> int_of_pyfloat (pyfloat_times f 1000))
            else
              (case points_search t of
                 None \<Rightarrow> Inr 0
               | Some g \<Rightarrow> Inr (digits_val (remove_char CHR '','' g)))))"

section \<open>The value ratio\<close>

text \<open>
  \<^verbatim>\<open>round(x, 2)\<close>: the multiple of 1/100 nearest to \<open>x\<close>, and of two equally near ones the
  one with an even numerator. (On doubles the interpreter rounds the exact binary value, so
  a decimal that looks like a tie, as 2.675, is none there; on reals it is.)
\<close>

definition round_half_even :: "real \<Rightarrow> int" where
  "round_half_even y =
    (let f = \<lfloor>y\<rfloor>; d = y - of_int f in
     if d < 1 / 2 then f else if d > 1 / 2 then f + 1 else if even f then f else f + 1)"

definition py_round2 :: "real \<Rightarrow> real" where
  "py_round2 x = of_int (round_half_even (x * 100)) / 100"

text \<open>\<^verbatim>\<open>calculate_cpp\<close>.\<close>

definition calculate_cpp :: "real \<Rightarrow> int \<Rightarrow> real \<Rightarrow> real" where
  "calculate_cpp cash points taxes =
    (if points > 0 then py_round2 (((cash - taxes) / of_int points) * 100) else 0)"

section \<open>Extraction\<close>

record FlightData =
  flight_number :: string
  departure_time :: string
  arrival_time :: string
  points_required :: int
  cash_price_usd :: real
  taxes_fees_usd :: real
  cpp :: real
  raw_text :: string

text \<open>
  One node that \<^verbatim>\<open>soup.select(AASelectors.FLIGHT_BUTTONS)\<close> yields, as the loop of
  \<^verbatim>\<open>scrape_choose_flights\<close> sees it: for each \<^verbatim>\<open>select_one\<close> either \<open>None\<close> (no such
  element) or the element's \<^verbatim>\<open>get_text(strip=True)\<close>, and the node's own
  \<^verbatim>\<open>get_text(strip=True)\<close>.
\<close>

record button =
  date_elem :: "string option"
  points_elem :: "string option"
  cash_elem :: "string option"
  dep_elem :: "string option"
  arr_elem :: "string option"
  fn_elem :: "string option"
  button_text :: string

text \<open>
  What one pass of the loop body does with a node: \<open>Skipped\<close> by \<^verbatim>\<open>continue\<close> for a missing
  date, \<open>Failed\<close> when a parser raised (the \<^verbatim>\<open>except Exception\<close> logs and goes on with the next
  node), \<open>Dropped\<close> when \<^verbatim>\<open>cash or points\<close> is false, \<open>Emitted\<close> when a record was appended.
\<close>

datatype node_outcome = Skipped | Failed exn | Dropped | Emitted FlightData

text \<open>\<^verbatim>\<open>elem.get_text(strip=True) if elem else ""\<close>.\<close>

definition text_or_empty :: "string option \<Rightarrow> string" where
  "text_or_empty elem = (case elem of Some t \<Rightarrow> t | None \<Rightarrow> [])"

text \<open>The body of the loop, for the node \<open>b\<close> with index \<open>i\<close> of \<^verbatim>\<open>enumerate(flight_buttons, 1)\<close>.\<close>

definition process_button :: "ScraperConfig \<Rightarrow> int \<Rightarrow> button \<Rightarrow> node_outcome" where
  "process_button config i b =
    (if date_elem b = None then Skipped
     else
       (let departure_time = text_or_empty (dep_elem b);
            arrival_time = text_or_empty (arr_elem b);
            flight_number = (case fn_elem b of Some t \<Rightarrow> t | None \<Rightarrow> ''AA_'' @ py_str i)
        in case parse_points (Some (text_or_empty (points_elem b))) of
             Inl e \<Rightarrow> Failed e
           | Inr points \<Rightarrow>
               (case parse_money (Some (text_or_empty (cash_elem b))) of
                  Inl e \<Rightarrow> Failed e
                | Inr cash \<Rightarrow>
                    (let cpp = calculate_cpp cash points (default_taxes config) in
                     if cash \<noteq> 0 \<or> points \<noteq> 0 then
                       Emitted \<lparr>flight_number = flight_number,
                                departure_time = departure_time,
                                arrival_time = arrival_time,
                                points_required = points,
                                cash_price_usd = cash,
                                taxes_fees_usd = default_taxes config,
                                cpp = cpp,
                                raw_text = take 200 (button_text b)\<rparr>
                     else Dropped))))"

text \<open>
  The loop \<^verbatim>\<open>for i, button in enumerate(flight_buttons, 1)\<close> with the list \<^verbatim>\<open>flights\<close> it
  appends to. (The pause after each appended record is not modelled.)
\<close>

fun extract_loop :: "ScraperConfig \<Rightarrow> int \<Rightarrow> button list \<Rightarrow> FlightData list \<Rightarrow> FlightData list" where
  "extract_loop config i [] flights = flights"
| "extract_loop config i (b # bs) flights =
    extract_loop config (i + 1) bs
      (case process_button config i b of Emitted f \<Rightarrow> flights @ [f] | _ \<Rightarrow> flights)"

definition extract_flights :: "ScraperConfig \<Rightarrow> button list \<Rightarrow> FlightData list" where
  "extract_flights config flight_buttons = extract_loop config 1 flight_buttons []"

section \<open>One scrape\<close>

text \<open>
  What the browser does during one call of \<^verbatim>\<open>scrape_choose_flights\<close>: a call into it raises
  an exception that escapes the function; or the wait for the flight buttons times out (the
  function catches this \<^verbatim>\<open>TimeoutException\<close> itself); or the page loads, with its source
  and the nodes the selector finds in it.
\<close>

datatype fetch = Fetch_raises exn | Wait_timeout | Page string "button list"

text \<open>
  The environment of one pass of the retry loop: the clock reading inside \<^verbatim>\<open>rate_limit\<close>,
  the browser's behaviour, and for the restart after an empty result the clock reading when
  the new \<^verbatim>\<open>BrowserManager\<close> is made and whether its \<^verbatim>\<open>create_driver\<close> returned a driver.
  (After a restart without a driver the next scrape calls a method of \<^verbatim>\<open>None\<close>; that
  \<^verbatim>\<open>AttributeError\<close> is a \<open>Fetch_raises OtherException\<close> of the next pass.)
\<close>

record attempt_env =
  clock :: real
  fetched :: fetch
  restart_clock :: real
  restart_ok :: bool

text \<open>The block test on \<^verbatim>\<open>driver.page_source.lower()\<close>.\<close>

definition page_blocked :: "string \<Rightarrow> bool" where
  "page_blocked page_source =
    (let page_text = py_lower page_source in
     py_contains ''access denied'' page_text \<or> py_contains ''blocked'' page_text)"

text \<open>
  \<^verbatim>\<open>scrape_choose_flights\<close>: the exception that escaped or the list returned, and the
  browser object after the call.
\<close>

definition scrape_choose_flights ::
  "ScraperConfig \<Rightarrow> attempt_env \<Rightarrow> BrowserManager \<Rightarrow> (exn + FlightData list) \<times> BrowserManager" where
  "scrape_choose_flights config env browser =
    (case rate_limit config (clock env) browser of
       (Inl e, browser') \<Rightarrow> (Inl e, browser')
     | (Inr slept, browser') \<Rightarrow>
         (case fetched env of
            Fetch_raises e \<Rightarrow> (Inl e, browser')
          | Wait_timeout \<Rightarrow> (Inr [], browser')
          | Page page_source flight_buttons \<Rightarrow>
              if page_blocked page_source then (Inr [], browser')
              else (Inr (extract_flights config flight_buttons), browser')))"

section \<open>The retry loop of \<^verbatim>\<open>main\<close>\<close>

text \<open>
  How the loop ends: \<open>SUCCESS\<close> by \<^verbatim>\<open>break\<close> with a non-empty list, \<open>EXHAUSTED\<close> in the
  \<^verbatim>\<open>else\<close> of the \<^verbatim>\<open>for\<close> ("All retry attempts exhausted"), \<open>FATAL\<close> when an exception other
  than \<^verbatim>\<open>TimeoutException\<close> and \<^verbatim>\<open>WebDriverException\<close> leaves the loop for the outer handler
  ("Fatal error").
\<close>

datatype status = SUCCESS | EXHAUSTED | FATAL exn

text \<open>
  What the loop leaves behind: how it ended and the variable \<^verbatim>\<open>flights\<close>. \<open>outcomes\<close> and
  \<open>slept\<close> are not variables of the source: they record, in order, what each call of
  \<^verbatim>\<open>scrape_choose_flights\<close> did and each \<^verbatim>\<open>time.sleep(retry_delay)\<close>, so that theorems can
  speak of the attempts made.
\<close>

record run =
  run_status :: status
  run_flights :: "FlightData list"
  outcomes :: "(exn + FlightData list) list"
  slept :: "int list"

text \<open>The exceptions the \<^verbatim>\<open>except\<close> clause inside the loop catches.\<close>

definition caught :: "exn \<Rightarrow> bool" where
  "caught e = (e = TimeoutException \<or> e = WebDriverException)"

text \<open>
  The loop over the remaining values of \<^verbatim>\<open>attempt\<close>. \<open>envs attempt\<close> is the environment of
  the pass with that index. The restart itself (\<^verbatim>\<open>quit\<close>, the new \<^verbatim>\<open>BrowserManager\<close>,
  \<^verbatim>\<open>create_driver\<close>, which both catch what the driver raises) and the sleeps are taken not
  to raise, and an interrupt from the keyboard is not modelled.
\<close>

fun retry_loop ::
  "ScraperConfig \<Rightarrow> (nat \<Rightarrow> attempt_env) \<Rightarrow> nat list \<Rightarrow> BrowserManager \<Rightarrow> FlightData list \<Rightarrow>
   (exn + FlightData list) list \<Rightarrow> int list \<Rightarrow> run" where
  "retry_loop config envs [] browser flights outs sl =
    \<lparr>run_status = (if flights = [] then EXHAUSTED else SUCCESS),
     run_flights = flights, outcomes = outs, slept = sl\<rparr>"
| "retry_loop config envs (attempt # rest) browser flights outs sl =
    (case scrape_choose_flights config (envs attempt) browser of
       (Inr fl, browser1) \<Rightarrow>
         if fl \<noteq> [] then
           \<lparr>run_status = SUCCESS, run_flights = fl, outcomes = outs @ [Inr fl], slept = sl\<rparr>
         else if int attempt < max_retries config - 1 then
           (let retry_delay = 2 ^ attempt * 5;
                browser2 = new_BrowserManager (restart_clock (envs attempt))
            in if \<not> restart_ok (envs attempt)
               then retry_loop config envs rest browser2 fl (outs @ [Inr fl]) sl
               else retry_loop config envs rest browser2 fl (outs @ [Inr fl]) (sl @ [retry_delay]))
         else retry_loop config envs rest browser1 fl (outs @ [Inr fl]) sl
     | (Inl e, browser1) \<Rightarrow>
         if caught e then
           (if int attempt < max_retries config - 1
            then retry_loop config envs rest browser1 flights (outs @ [Inl e]) (sl @ [2 ^ attempt * 5])
            else retry_loop config envs rest browser1 flights (outs @ [Inl e]) sl)
         else \<lparr>run_status = FATAL e, run_flights = flights, outcomes = outs @ [Inl e], slept = sl\<rparr>)"

text \<open>\<^verbatim>\<open>range(n)\<close>.\<close>

definition py_range :: "int \<Rightarrow> nat list" where
  "py_range n = [0..<nat n]"

text \<open>
  The loop as \<^verbatim>\<open>main\<close> enters it, once the first \<^verbatim>\<open>create_driver\<close> has returned a driver:
  \<open>t0\<close> is the clock reading when the first \<^verbatim>\<open>BrowserManager\<close> was made.
\<close>

definition main_loop :: "ScraperConfig \<Rightarrow> real \<Rightarrow> (nat \<Rightarrow> attempt_env) \<Rightarrow> run" where
  "main_loop config t0 envs =
    retry_loop config envs (py_range (max_retries config)) (new_BrowserManager t0) [] [] []"

section \<open>Deduplication and the best value\<close>

definition flight_key :: "FlightData \<Rightarrow> int \<times> real \<times> string" where
  "flight_key flight = (points_required flight, cash_price_usd flight, departure_time flight)"

text \<open>The loop over \<^verbatim>\<open>flights\<close> with the set \<^verbatim>\<open>seen\<close> and the list \<^verbatim>\<open>unique_flights\<close>.\<close>

fun dedupe_loop ::
  "FlightData list \<Rightarrow> (int \<times> real \<times> string) set \<Rightarrow> FlightData list \<Rightarrow> FlightData list" where
  "dedupe_loop [] seen unique_flights = unique_flights"
| "dedupe_loop (flight # rest) seen unique_flights =
    (let key = flight_key flight in
     if key \<notin> seen then dedupe_loop rest (insert key seen) (unique_flights @ [flight])
     else dedupe_loop rest seen unique_flights)"

definition dedupe :: "FlightData list \<Rightarrow> FlightData list" where
  "dedupe flights = dedupe_loop flights {} []"




section \<open>A sequence of admissions\<close>

text \<open>
  \<^verbatim>\<open>rate_limit\<close> called once at each clock reading of the list, on the same object. The result
  lists, for the calls that return, the time at which they return: the clock reading plus
  the time slept.
\<close>

fun admissions :: "ScraperConfig \<Rightarrow> BrowserManager \<Rightarrow> real list \<Rightarrow> real list" where
  "admissions config self [] = []"
| "admissions config self (t # ts) =
    (case rate_limit config t self of
       (Inl e, self') \<Rightarrow> admissions config self' ts
     | (Inr sleep_time, self') \<Rightarrow> (t + sleep_time) # admissions config self' ts)"

section \<open>Definitions used in the proofs and examples\<close>


text \<open>The configuration \<^verbatim>\<open>ScraperConfig()\<close> of \<^verbatim>\<open>main\<close>: taxes 5.60, 5 retries, 8 requests per hour.\<close>

definition default_config :: ScraperConfig where
  "default_config = \<lparr>default_taxes = 28 / 5, max_retries = 5, requests_per_hour = 8\<rparr>"




text \<open>Nodes for examples: an ordinary fare card, and variants of it.\<close>

definition button_plain :: button where
  "button_plain = \<lparr>date_elem = Some ''Mon, Dec 7'', points_elem = Some ''40k'',
     cash_elem = Some (CHR 0x24 # ''200''), dep_elem = Some ''08:00'', arr_elem = None,
     fn_elem = None, button_text = ''Mon, Dec 7 40k 200''\<rparr>"

definition button_no_date :: button where
  "button_no_date = button_plain\<lparr>date_elem := None\<rparr>"

definition button_no_prices :: button where
  "button_no_prices = button_plain\<lparr>points_elem := None, cash_elem := None\<rparr>"








text \<open>An environment in which every navigation raises \<^verbatim>\<open>WebDriverException\<close>, one second apart.\<close>

definition env_driver_errors :: "nat \<Rightarrow> attempt_env" where
  "env_driver_errors n =
    \<lparr>clock = real n, fetched = Fetch_raises WebDriverException, restart_clock = real n,
     restart_ok = True\<rparr>"


section \<open>Properties of the rate limiter\<close>

text \<open>The three ways a call of \<^verbatim>\<open>rate_limit\<close> can go.\<close>

lemma rate_limit_under_cap:
  assumes "request_count self + 1 \<le> requests_per_hour config"
  shows "rate_limit config t self
    = (Inr 0, \<lparr>request_count = request_count self + 1, last_request_time = t\<rparr>)"
  using assms by (simp add: rate_limit_def Let_def)

lemma rate_limit_window_over:
  assumes "request_count self + 1 > requests_per_hour config"
    and "3600 \<le> t - last_request_time self"
  shows "rate_limit config t self = (Inr 0, \<lparr>request_count = 1, last_request_time = t\<rparr>)"
  using assms by (simp add: rate_limit_def Let_def)

lemma rate_limit_raises:
  assumes "request_count self + 1 > requests_per_hour config"
    and "t - last_request_time self < 3600"
  shows "\<exists>e. rate_limit config t self
    = (Inl e, \<lparr>request_count = request_count self + 1,
               last_request_time = last_request_time self\<rparr>)"
proof -
  let ?d = "requests_per_hour config - (request_count self + 1) + 1"
  show ?thesis
  proof (cases "?d = 0")
    case True
    then show ?thesis using assms by (simp add: rate_limit_def Let_def)
  next
    case False
    with assms(1) have neg: "(of_int ?d :: real) < 0" by simp
    have pos: "0 < 3600 - (t - last_request_time self)" using assms(2) by simp
    have "(3600 - (t - last_request_time self)) / of_int ?d < 0"
      using pos neg by (rule divide_pos_neg)
    then show ?thesis using assms False by (simp add: rate_limit_def Let_def)
  qed
qed

text \<open>A call that returns has not slept.\<close>

lemma rate_limit_never_sleeps:
  assumes "rate_limit config t self = (Inr sleep_time, self')"
  shows "sleep_time = 0"
proof (cases "request_count self + 1 \<le> requests_per_hour config")
  case True
  from rate_limit_under_cap [OF True, of t] assms show ?thesis by simp
next
  case False
  then have over: "request_count self + 1 > requests_per_hour config" by simp
  show ?thesis
  proof (cases "3600 \<le> t - last_request_time self")
    case True
    from rate_limit_window_over [OF over True] assms show ?thesis by simp
  next
    case False
    then have "t - last_request_time self < 3600" by simp
    from rate_limit_raises [OF over this] assms show ?thesis by auto
  qed
qed

text \<open>
  C1. The claim is that \<^verbatim>\<open>rate_limit\<close> returns normally from every state and at every clock
  reading, and that the divisor of the sleep duration is never zero in the sleep branch.
  With the default cap of 8 requests, the ninth call one second after the eighth has the
  divisor \<open>8 - 9 + 1 = 0\<close> and raises \<^verbatim>\<open>ZeroDivisionError\<close>. (By \<open>rate_limit_raises\<close> every
  call that takes the sleep branch raises: the divisor is then 0 or negative.)
\<close>

theorem rate_limit_ninth_call_raises:
  "rate_limit default_config 1 \<lparr>request_count = 8, last_request_time = 0\<rparr>
   = (Inl ZeroDivisionError, \<lparr>request_count = 9, last_request_time = 0\<rparr>)"
  by (simp add: rate_limit_def default_config_def Let_def)

section \<open>Properties of the parsers\<close>

text \<open>The two parsers on the usual forms of their input, and on no input.\<close>

lemma parse_examples:
  "parse_points (Some ''45k'') = Inr 45000
   \<and> parse_points (Some ''12,345'') = Inr 12345
   \<and> parse_points (Some []) = Inr 0
   \<and> parse_points None = Inr 0
   \<and> parse_money (Some (CHR 0x24 # ''1,234.50'')) = Inr (2469 / 2)
   \<and> parse_money (Some ''no price'') = Inr 0
   \<and> parse_money None = Inr 0"
  by code_simp

text \<open>
  C5. The claim is that \<^verbatim>\<open>parse_points\<close> never fails, returns 0 on text it cannot parse and
  otherwise the first integer token with optional thousands separators. A text with a
  \<^verbatim>\<open>k\<close> in it that is not a number once the \<^verbatim>\<open>k\<close> is removed makes \<^verbatim>\<open>float\<close> raise
  \<^verbatim>\<open>ValueError\<close>, and an integer of more than three digits without separators is cut after
  its third digit.
\<close>

theorem parse_points_failures:
  "parse_points (Some ''unknown'') = Inl ValueError
   \<and> parse_points (Some ''45k miles'') = Inl ValueError
   \<and> parse_points (Some ''12345'') = Inr 123"
  by code_simp

text \<open>
  C6. The claim is that \<^verbatim>\<open>parse_money\<close> never fails and returns 0.0 on text it cannot parse.
  The pattern's group also matches a run of commas without a digit; with the commas removed
  \<^verbatim>\<open>float\<close> gets the empty string and raises \<^verbatim>\<open>ValueError\<close>. This happens whenever a comma
  stands before the first digit of the text.
\<close>

theorem parse_money_failures:
  "parse_money (Some '','') = Inl ValueError
   \<and> parse_money (Some (''Fare, '' @ CHR 0x24 # ''200'')) = Inl ValueError"
  by code_simp

section \<open>Properties of the value ratio\<close>





section \<open>Properties of the deduplication\<close>














section \<open>Money is never negative\<close>

lemma is_digit_minus [simp]: "\<not> is_digit CHR ''-''"
  by (simp add: is_digit_def)







lemma money_fraction_chars: "c \<in> set (money_fraction s) \<Longrightarrow> c = CHR ''.'' \<or> is_digit c"
  by (induction s rule: money_fraction.induct) (auto split: if_splits)




text \<open>
  On the group of the money pattern \<^verbatim>\<open>float\<close> gives neither an infinity nor a NaN, so the
  two last cases of \<open>parse_money\<close> never apply.
\<close>

lemma parse_inf_or_nan_digits:
  assumes "\<forall>c \<in> set s. is_digit c \<or> c = CHR ''.''"
  shows "parse_inf_or_nan s = None"
proof -
  obtain neg r where t: "take_sign s = (neg, r)" by (cases "take_sign s")
  have sub: "set r \<subseteq> set s" using t by (cases s) (auto split: if_splits)
  have unch: "py_lower_char c = c \<and> c \<noteq> CHR ''i'' \<and> c \<noteq> CHR ''n''" if "c \<in> set r" for c
  proof -
    from that sub assms have "is_digit c \<or> c = CHR ''.''" by blast
    then show ?thesis by (auto simp: is_digit_def py_lower_char_def)
  qed
  then have same: "py_lower r = r" by (simp add: py_lower_def map_idI)
  have ni: "CHR ''i'' \<notin> set r" and nn: "CHR ''n'' \<notin> set r"
    using unch by blast+
  have "r \<noteq> ''inf''" "r \<noteq> ''infinity''" using ni by auto
  moreover have "r \<noteq> ''nan''" using nn by auto
  ultimately show ?thesis using t same by (simp add: parse_inf_or_nan_def)
qed

lemma money_match_at_chars:
  assumes "money_match_at s = Some g"
  shows "\<forall>c \<in> set g. is_digit c \<or> c = CHR '','' \<or> c = CHR ''.''"
proof
  fix c assume mem: "c \<in> set g"
  from assms obtain s2
    where g: "g = takeWhile digit_or_comma s2 @ money_fraction (dropWhile digit_or_comma s2)"
    by (auto simp: money_match_at_def Let_def split: if_splits)
  from mem g have "c \<in> set (takeWhile digit_or_comma s2)
      \<or> c \<in> set (money_fraction (dropWhile digit_or_comma s2))"
    by simp
  then show "is_digit c \<or> c = CHR '','' \<or> c = CHR ''.''"
  proof
    assume "c \<in> set (takeWhile digit_or_comma s2)"
    then have "digit_or_comma c" by (rule set_takeWhileD [THEN conjunct2])
    then show ?thesis by (auto simp: digit_or_comma_def)
  next
    assume "c \<in> set (money_fraction (dropWhile digit_or_comma s2))"
    then show ?thesis using money_fraction_chars by blast
  qed
qed

lemma money_search_chars:
  "money_search s = Some g \<Longrightarrow> \<forall>c \<in> set g. is_digit c \<or> c = CHR '','' \<or> c = CHR ''.''"
  by (induction s) (auto split: option.splits dest: money_match_at_chars)

lemma money_float_finite:
  assumes "money_search s = Some g"
  shows "py_float (remove_char CHR '','' g) = None
       \<or> (\<exists>x. py_float (remove_char CHR '','' g) = Some (Finite x))"
proof -
  let ?u = "remove_char CHR ''_'' (float_strip (remove_char CHR '','' g))"
  have "set ?u \<subseteq> set g - {CHR '',''}"
    by (auto simp: remove_char_def float_strip_def dest!: set_dropWhileD)
  with money_search_chars [OF assms] have "\<forall>c \<in> set ?u. is_digit c \<or> c = CHR ''.''"
    by blast
  then have "parse_inf_or_nan ?u = None" by (rule parse_inf_or_nan_digits)
  then show ?thesis
    by (auto simp: py_float_def Let_def split: prod.splits option.splits)
qed

section \<open>Properties of the extraction\<close>


lemma extract_loop_set:
  "set (extract_loop config i bs acc) =
     set acc \<union> {f. \<exists>k < length bs. process_button config (i + int k) (bs ! k) = Emitted f}"
proof (induction bs arbitrary: i acc)
  case Nil
  show ?case by simp
next
  case (Cons b bs)
  have shift: "\<And>f. (\<exists>k < length (b # bs). process_button config (i + int k) ((b # bs) ! k) = Emitted f)
      \<longleftrightarrow> process_button config i b = Emitted f
          \<or> (\<exists>k < length bs. process_button config (i + 1 + int k) (bs ! k) = Emitted f)"
  proof -
    fix f
    show "(\<exists>k < length (b # bs). process_button config (i + int k) ((b # bs) ! k) = Emitted f)
      \<longleftrightarrow> process_button config i b = Emitted f
          \<or> (\<exists>k < length bs. process_button config (i + 1 + int k) (bs ! k) = Emitted f)"
    proof
      assume "\<exists>k < length (b # bs). process_button config (i + int k) ((b # bs) ! k) = Emitted f"
      then obtain k where k: "k < length (b # bs)" "process_button config (i + int k) ((b # bs) ! k) = Emitted f"
        by blast
      show "process_button config i b = Emitted f
          \<or> (\<exists>k < length bs. process_button config (i + 1 + int k) (bs ! k) = Emitted f)"
      proof (cases k)
        case 0
        with k show ?thesis by simp
      next
        case (Suc j)
        with k have "j < length bs" "process_button config (i + 1 + int j) (bs ! j) = Emitted f"
          by (simp_all add: algebra_simps)
        then show ?thesis by blast
      qed
    next
      assume "process_button config i b = Emitted f
          \<or> (\<exists>k < length bs. process_button config (i + 1 + int k) (bs ! k) = Emitted f)"
      then show "\<exists>k < length (b # bs). process_button config (i + int k) ((b # bs) ! k) = Emitted f"
      proof
        assume "process_button config i b = Emitted f"
        then have "0 < length (b # bs) \<and> process_button config (i + int 0) ((b # bs) ! 0) = Emitted f"
          by simp
        then show ?thesis by blast
      next
        assume "\<exists>k < length bs. process_button config (i + 1 + int k) (bs ! k) = Emitted f"
        then obtain j where "j < length bs" "process_button config (i + 1 + int j) (bs ! j) = Emitted f"
          by blast
        then have "Suc j < length (b # bs) \<and> process_button config (i + int (Suc j)) ((b # bs) ! Suc j) = Emitted f"
          by (simp add: algebra_simps)
        then show ?thesis by blast
      qed
    qed
  qed
  have S: "{f. \<exists>k < length (b # bs). process_button config (i + int k) ((b # bs) ! k) = Emitted f}
      = {f. process_button config i b = Emitted f}
        \<union> {f. \<exists>k < length bs. process_button config (i + 1 + int k) (bs ! k) = Emitted f}"
    using shift by blast
  have head: "set (case process_button config i b of Emitted f \<Rightarrow> acc @ [f] | _ \<Rightarrow> acc)
      = set acc \<union> {f. process_button config i b = Emitted f}"
    by (cases "process_button config i b") auto
  have "set (extract_loop config i (b # bs) acc)
      = set (case process_button config i b of Emitted f \<Rightarrow> acc @ [f] | _ \<Rightarrow> acc)
        \<union> {f. \<exists>k < length bs. process_button config (i + 1 + int k) (bs ! k) = Emitted f}"
    by (simp add: Cons.IH)
  then show ?case unfolding S head by blast
qed

lemma extract_flights_set:
  "set (extract_flights config bs) =
     {f. \<exists>k < length bs. process_button config (int k + 1) (bs ! k) = Emitted f}"
  by (simp add: extract_flights_def extract_loop_set add.commute)

section \<open>The sign of the value ratio and the best value\<close>






section \<open>Claims about the extracted records\<close>





text \<open>
  C9, as the code has it. A node with a date and without a flight number element, at
  position \<open>k\<close> (counted from 0) of the list of all nodes, whose points and cash texts
  parse and are not both 0, yields a record with the flight number \<^verbatim>\<open>AA_\<close> followed by
  \<open>k + 1\<close> in decimal: the position counts every node of the list, also those skipped for a
  missing date.
\<close>

theorem fallback_flight_number:
  assumes "k < length flight_buttons"
    and "date_elem (flight_buttons ! k) \<noteq> None"
    and "fn_elem (flight_buttons ! k) = None"
    and "parse_points (Some (text_or_empty (points_elem (flight_buttons ! k)))) = Inr points"
    and "parse_money (Some (text_or_empty (cash_elem (flight_buttons ! k)))) = Inr cash"
    and "cash \<noteq> 0 \<or> points \<noteq> 0"
  shows "\<exists>f \<in> set (extract_flights config flight_buttons).
      flight_number f = ''AA_'' @ py_str (int k + 1)
      \<and> points_required f = points \<and> cash_price_usd f = cash
      \<and> departure_time f = text_or_empty (dep_elem (flight_buttons ! k))
      \<and> arrival_time f = text_or_empty (arr_elem (flight_buttons ! k))
      \<and> raw_text f = take 200 (button_text (flight_buttons ! k))"
proof -
  let ?b = "flight_buttons ! k"
  let ?f = "\<lparr>flight_number = ''AA_'' @ py_str (int k + 1),
             departure_time = text_or_empty (dep_elem ?b),
             arrival_time = text_or_empty (arr_elem ?b),
             points_required = points, cash_price_usd = cash,
             taxes_fees_usd = default_taxes config,
             cpp = calculate_cpp cash points (default_taxes config),
             raw_text = take 200 (button_text ?b)\<rparr>"
  have "process_button config (int k + 1) ?b = Emitted ?f"
    using assms(2-6) by (auto simp: process_button_def Let_def)
  with assms(1) have "?f \<in> set (extract_flights config flight_buttons)"
    by (auto simp: extract_flights_set)
  then show ?thesis by (intro bexI [of _ ?f]) simp_all
qed

theorem fallback_flight_number_witness:
  "\<exists>f \<in> set (extract_flights default_config [button_no_date, button_plain]).
      flight_number f = ''AA_2'' \<and> points_required f = 40000 \<and> cash_price_usd f = 200"
proof -
  have p: "parse_points (Some (text_or_empty (points_elem ([button_no_date, button_plain] ! 1)))) = Inr 40000"
    unfolding button_no_date_def button_plain_def by code_simp
  have c: "parse_money (Some (text_or_empty (cash_elem ([button_no_date, button_plain] ! 1)))) = Inr 200"
    unfolding button_no_date_def button_plain_def by code_simp
  have d: "date_elem ([button_no_date, button_plain] ! 1) \<noteq> None"
    and n: "fn_elem ([button_no_date, button_plain] ! 1) = None"
    by (simp_all add: button_plain_def)
  have s: "''AA_'' @ py_str (int 1 + 1) = ''AA_2''" by code_simp
  from fallback_flight_number [of 1 "[button_no_date, button_plain]" 40000 200 default_config, OF _ d n p c]
  show ?thesis unfolding s by auto
qed

text \<open>
  The claim C9 as stated names the fallback \<^verbatim>\<open>UNKNOWN_\<close> with the position among the nodes that
  were not skipped. The second of two nodes, the first of which has no date, gets \<^verbatim>\<open>AA_2\<close>.
\<close>

theorem fallback_is_not_unknown:
  "map flight_number (extract_flights default_config [button_no_date, button_plain]) = [''AA_2'']
   \<and> map flight_number (extract_flights default_config [button_no_date, button_plain]) \<noteq> [''UNKNOWN_1'']"
proof -
  have "map flight_number (extract_flights default_config [button_no_date, button_plain]) = [''AA_2'']"
    unfolding default_config_def button_no_date_def button_plain_def by code_simp
  then show ?thesis by simp
qed



section \<open>Admissions within a window\<close>

lemma admissions_subset: "set (admissions config self ts) \<subseteq> set ts"
proof (induction ts arbitrary: self)
  case Nil
  show ?case by simp
next
  case (Cons t ts)
  obtain res self' where r: "rate_limit config t self = (res, self')"
    by (cases "rate_limit config t self")
  show ?case
  proof (cases res)
    case (Inl e)
    with r Cons.IH [of self'] show ?thesis by auto
  next
    case (Inr s)
    with r have "s = 0" using rate_limit_never_sleeps by blast
    with r Inr Cons.IH [of self'] show ?thesis by auto
  qed
qed

text \<open>
  The invariant of a sequence of calls at non-decreasing clock readings. \<open>a\<close> is the start
  of a window of 3600 seconds. Whatever the window, at most \<open>requests_per_hour\<close> calls
  return in it; and a window that starts no later than the last return leaves room only
  for what remains of the cap.
\<close>

lemma admissions_window_general:
  assumes "1 \<le> requests_per_hour config"
    and "sorted ts"
    and "0 \<le> request_count self"
    and "0 < request_count self \<longrightarrow> (\<forall>t \<in> set ts. last_request_time self \<le> t)"
  shows "length (filter (\<lambda>r. a \<le> r \<and> r < a + 3600) (admissions config self ts))
          \<le> nat (requests_per_hour config)
    \<and> (a \<le> last_request_time self \<longrightarrow>
         length (filter (\<lambda>r. a \<le> r \<and> r < a + 3600) (admissions config self ts))
          \<le> nat (requests_per_hour config - request_count self))"
  using assms(2-4)
proof (induction ts arbitrary: self)
  case Nil
  show ?case by simp
next
  case (Cons t ts)
  let ?W = "\<lambda>r. a \<le> r \<and> r < a + 3600"
  let ?rph = "requests_per_hour config"
  let ?rc = "request_count self"
  let ?last = "last_request_time self"
  have sorted_ts: "sorted ts" and later: "\<forall>t' \<in> set ts. t \<le> t'"
    using Cons.prems(1) by simp_all
  show ?case
  proof (cases "?rc + 1 \<le> ?rph")
    case True
    let ?self' = "\<lparr>request_count = ?rc + 1, last_request_time = t\<rparr>"
    have step: "admissions config self (t # ts) = t # admissions config ?self' ts"
      using rate_limit_under_cap [OF True, of t] by simp
    have IH: "length (filter ?W (admissions config ?self' ts)) \<le> nat ?rph
      \<and> (a \<le> t \<longrightarrow> length (filter ?W (admissions config ?self' ts)) \<le> nat (?rph - (?rc + 1)))"
      using Cons.IH [of ?self'] sorted_ts later Cons.prems(2) by simp
    have first: "length (filter ?W (admissions config self (t # ts))) \<le> nat ?rph"
    proof (cases "?W t")
      case True
      with IH have "length (filter ?W (admissions config ?self' ts)) \<le> nat (?rph - (?rc + 1))"
        by simp
      moreover have "length (filter ?W (admissions config self (t # ts)))
          \<le> Suc (length (filter ?W (admissions config ?self' ts)))"
        unfolding step by simp
      ultimately show ?thesis using \<open>?rc + 1 \<le> ?rph\<close> Cons.prems(2) by arith
    next
      case False
      with IH show ?thesis unfolding step by auto
    qed
    have second: "length (filter ?W (admissions config self (t # ts))) \<le> nat (?rph - ?rc)"
      if a: "a \<le> ?last"
    proof (cases "0 < ?rc")
      case pos: True
      with Cons.prems(3) have "?last \<le> t" by simp
      with a have "a \<le> t" by simp
      with IH have "length (filter ?W (admissions config ?self' ts)) \<le> nat (?rph - (?rc + 1))"
        by simp
      moreover have "length (filter ?W (admissions config self (t # ts)))
          \<le> Suc (length (filter ?W (admissions config ?self' ts)))"
        unfolding step by simp
      ultimately show ?thesis using True by arith
    next
      case False
      with Cons.prems(2) have "?rc = 0" by simp
      with first show ?thesis by simp
    qed
    from first second show ?thesis by blast
  next
    case False
    then have over: "?rc + 1 > ?rph" by simp
    show ?thesis
    proof (cases "3600 \<le> t - ?last")
      case True
      let ?self' = "\<lparr>request_count = 1, last_request_time = t\<rparr>"
      have step: "admissions config self (t # ts) = t # admissions config ?self' ts"
        using rate_limit_window_over [OF over True] by simp
      have IH: "length (filter ?W (admissions config ?self' ts)) \<le> nat ?rph
        \<and> (a \<le> t \<longrightarrow> length (filter ?W (admissions config ?self' ts)) \<le> nat (?rph - 1))"
        using Cons.IH [of ?self'] sorted_ts later by simp
      have first: "length (filter ?W (admissions config self (t # ts))) \<le> nat ?rph"
      proof (cases "?W t")
        case True
        with IH have "length (filter ?W (admissions config ?self' ts)) \<le> nat (?rph - 1)"
          by simp
        moreover have "length (filter ?W (admissions config self (t # ts)))
            \<le> Suc (length (filter ?W (admissions config ?self' ts)))"
          unfolding step by simp
        ultimately show ?thesis using assms(1) by arith
      next
        case False
        with IH show ?thesis unfolding step by auto
      qed
      have second: "length (filter ?W (admissions config self (t # ts))) \<le> nat (?rph - ?rc)"
        if a: "a \<le> ?last"
      proof -
        from a True have out: "a + 3600 \<le> t" by simp
        have "\<forall>r \<in> set (admissions config ?self' ts). t \<le> r"
          using admissions_subset [of config ?self' ts] later by blast
        with out have "filter ?W (admissions config ?self' ts) = []"
          by (auto simp: filter_empty_conv)
        with out show ?thesis unfolding step by simp
      qed
      from first second show ?thesis by blast
    next
      case False
      then have within: "t - ?last < 3600" by simp
      let ?self' = "\<lparr>request_count = ?rc + 1, last_request_time = ?last\<rparr>"
      from rate_limit_raises [OF over within]
      have step: "admissions config self (t # ts) = admissions config ?self' ts"
        by auto
      have pos: "0 < ?rc" using over assms(1) by simp
      with Cons.prems(3) have "\<forall>t' \<in> set ts. ?last \<le> t'" by simp
      then have IH: "length (filter ?W (admissions config ?self' ts)) \<le> nat ?rph
        \<and> (a \<le> ?last \<longrightarrow> length (filter ?W (admissions config ?self' ts)) \<le> nat (?rph - (?rc + 1)))"
        using Cons.IH [of ?self'] sorted_ts Cons.prems(2) by simp
      then have "length (filter ?W (admissions config ?self' ts)) \<le> nat ?rph"
        and "a \<le> ?last \<longrightarrow> length (filter ?W (admissions config ?self' ts)) \<le> nat (?rph - ?rc)"
        by auto
      then show ?thesis unfolding step by blast
    qed
  qed
qed

text \<open>
  C3. For every sequence of calls of \<^verbatim>\<open>rate_limit\<close> on a new \<^verbatim>\<open>BrowserManager\<close>, at clock
  readings that do not decrease, with a cap \<open>requests_per_hour\<close> of at least 1: in every
  window of 3600 seconds, from \<open>a\<close> up to but not including \<open>a + 3600\<close>, at most
  \<open>requests_per_hour\<close> calls return. (A call over the cap inside the window does not return:
  it raises, see \<open>rate_limit_raises\<close>.)
\<close>

theorem admissions_per_window:
  assumes "1 \<le> requests_per_hour config" and "sorted ts"
  shows "length (filter (\<lambda>r. a \<le> r \<and> r < a + 3600)
                   (admissions config (new_BrowserManager t0) ts))
          \<le> nat (requests_per_hour config)"
  using admissions_window_general [OF assms, of "new_BrowserManager t0" a]
  by (simp add: new_BrowserManager_def)

theorem admissions_per_window_witness:
  "admissions (default_config\<lparr>requests_per_hour := 2\<rparr>) (new_BrowserManager 0)
      [1, 2, 3, 4, 3602, 3603, 7000, 7202, 7203] = [1, 2, 3602, 3603, 7203]
   \<and> length (filter (\<lambda>r. 3 \<le> r \<and> r < 3 + 3600)
        (admissions (default_config\<lparr>requests_per_hour := 2\<rparr>) (new_BrowserManager 0)
           [1, 2, 3, 4, 3602, 3603, 7000, 7202, 7203])) \<le> nat 2"
proof -
  have cap: "1 \<le> requests_per_hour (default_config\<lparr>requests_per_hour := 2\<rparr>)" by simp
  have srt: "sorted [1, 2, 3, 4, 3602, 3603, 7000, 7202, 7203 :: real]" by simp
  have e: "admissions (default_config\<lparr>requests_per_hour := 2\<rparr>) (new_BrowserManager 0)
      [1, 2, 3, 4, 3602, 3603, 7000, 7202, 7203] = [1, 2, 3602, 3603, 7203]"
    by (simp add: default_config_def new_BrowserManager_def rate_limit_def Let_def)
  from admissions_per_window [OF cap srt, of 3 0] e show ?thesis by simp
qed

section \<open>The retry loop\<close>









text \<open>
  The third way to end, on an example: with 12 retries and a cap of 8 requests, navigation
  errors that the loop catches keep the same \<^verbatim>\<open>BrowserManager\<close>, so the ninth pass raises
  \<^verbatim>\<open>ZeroDivisionError\<close> in \<^verbatim>\<open>rate_limit\<close> and the loop is left for the outer handler.
\<close>

lemma main_loop_rate_limit_fatal:
  "run_status (main_loop (default_config\<lparr>max_retries := 12\<rparr>) 0 env_driver_errors)
     = FATAL ZeroDivisionError
   \<and> length (outcomes (main_loop (default_config\<lparr>max_retries := 12\<rparr>) 0 env_driver_errors)) = 9"
  unfolding default_config_def env_driver_errors_def by code_simp

section \<open>Two scenarios\<close>

text \<open>
  Three fare cards, the second without prices and the third a duplicate of the first, give
  one record with the value ratio 0.49.
\<close>

lemma three_cards_one_record:
  "dedupe (extract_flights default_config [button_plain, button_no_prices, button_plain])
     = [\<lparr>flight_number = ''AA_1'', departure_time = ''08:00'', arrival_time = [],
         points_required = 40000, cash_price_usd = 200, taxes_fees_usd = 28 / 5, cpp = 49 / 100,
         raw_text = ''Mon, Dec 7 40k 200''\<rparr>]"
  unfolding default_config_def button_no_prices_def button_plain_def by code_simp

text \<open>A page whose text has "Access Denied" in it gives no records, whatever its fare cards.\<close>

lemma access_denied_page:
  "fst (scrape_choose_flights default_config
     \<lparr>clock = 1, fetched = Page ''<h1>Access Denied</h1>'' [button_plain], restart_clock = 2,
      restart_ok = True\<rparr>
     (new_BrowserManager 0)) = Inr []"
  unfolding default_config_def button_plain_def new_BrowserManager_def by code_simp

end
